theory Spec2Isabelle
  imports Main
begin

section \<open>The booking form of the yoga events site\<close>

text \<open>
  The development embeds \<^verbatim>\<open>src/components/BookingForm.tsx\<close>: the validation schema
  \<^verbatim>\<open>bookingSchema\<close>, the handlers \<^verbatim>\<open>onSubmit\<close>, \<^verbatim>\<open>completeBooking\<close>,
  \<^verbatim>\<open>handlePaymentSuccess\<close> and the cancel callback handed to the payment gateway.
  The handlers mutate the shared store \<^verbatim>\<open>db\<close> and the component's React state; here
  they take the state and return the new one. A JavaScript string is a \<open>string\<close>, one
  element per code unit, so that \<open>length\<close> is the \<^verbatim>\<open>.length\<close> that zod's
  \<^verbatim>\<open>min\<close> compares. The numbers \<^verbatim>\<open>price\<close> and \<^verbatim>\<open>currentParticipants\<close> are
  integers: the source compares the first with \<^verbatim>\<open>0\<close> and adds \<^verbatim>\<open>1\<close> to the second.
\<close>

subsection \<open>Records of \<^verbatim>\<open>@/types\<close>\<close>

text \<open>
  Modelled from the spec: the type declarations \<^verbatim>\<open>Event\<close>, \<^verbatim>\<open>User\<close> and
  \<^verbatim>\<open>Booking\<close> of \<^verbatim>\<open>@/types\<close> are not among the sources. The fields are the ones the
  form reads and writes, with the data model of the specification (section 3) for the rest.
  The field \<^verbatim>\<open>id\<close> of each record carries the record's name, since \<open>id\<close> is the identity
  function of HOL.
\<close>

datatype payment_status = pending | completed

record User =
  user_id :: string
  name :: string
  email :: string
  phone :: string
  studentId :: string
  registrationDate :: string

record Event =
  event_id :: string
  title :: string
  date :: string
  time :: string
  price :: int
  maxParticipants :: int
  currentParticipants :: int

record Booking =
  booking_id :: string
  userId :: string
  eventId :: string
  bookingDate :: string
  paymentStatus :: payment_status
  amount :: int
  paymentId :: "string option"

text \<open>The value of the form, \<^verbatim>\<open>BookingFormData\<close>, as zod infers it from the schema.\<close>

record BookingFormData =
  data_name :: string
  data_email :: string
  data_phone :: string
  data_studentId :: string

subsection \<open>Errors\<close>

text \<open>
  What a call can throw. \<open>NotFound\<close>, \<open>InvalidState\<close> and \<open>CapacityExceeded\<close> are the
  errors of the specification's taxonomy (section 7); \<open>StorageFailure\<close> is a store write
  that throws, \<open>NotificationFailure\<close> a rejected promise of the mail service.
\<close>

datatype error = NotFound | InvalidState | CapacityExceeded | StorageFailure | NotificationFailure

datatype outcome = Ok | Thrown error

subsection \<open>The record store \<^verbatim>\<open>db\<close>\<close>

text \<open>
  Modelled from the spec: the module \<^verbatim>\<open>@/lib/database\<close> is not among the sources. The
  store holds three collections (section 6); \<^verbatim>\<open>createUser\<close> and \<^verbatim>\<open>createBooking\<close>
  append; \<^verbatim>\<open>findUserByEmail\<close> is an exact-match lookup; \<^verbatim>\<open>updateBooking\<close> and
  \<^verbatim>\<open>updateEvent\<close> merge the supplied fields into the record addressed by the
  identifier and fail with \<open>NotFound\<close> when the identifier is unknown (section 4.1). The
  operations carry the names under which the form calls them. A partial record is given
  as the function that merges its fields into a record.
\<close>

record database =
  users :: "User list"
  events :: "Event list"
  bookings :: "Booking list"

definition getUserByEmail :: "database \<Rightarrow> string \<Rightarrow> User option" where
  "getUserByEmail d e = find (\<lambda>u. email u = e) (users d)"

definition addUser :: "database \<Rightarrow> User \<Rightarrow> database" where
  "addUser d u = d\<lparr>users := users d @ [u]\<rparr>"

definition addBooking :: "database \<Rightarrow> Booking \<Rightarrow> database" where
  "addBooking d b = d\<lparr>bookings := bookings d @ [b]\<rparr>"

definition getEvent :: "database \<Rightarrow> string \<Rightarrow> Event option" where
  "getEvent d i = find (\<lambda>e. event_id e = i) (events d)"

definition getBooking :: "database \<Rightarrow> string \<Rightarrow> Booking option" where
  "getBooking d i = find (\<lambda>b. booking_id b = i) (bookings d)"

definition updateBooking :: "database \<Rightarrow> string \<Rightarrow> (Booking \<Rightarrow> Booking) \<Rightarrow> error + database" where
  "updateBooking d i f =
     (if getBooking d i = None then Inl NotFound
      else Inr (d\<lparr>bookings := map (\<lambda>b. if booking_id b = i then f b else b) (bookings d)\<rparr>))"

definition updateEvent :: "database \<Rightarrow> string \<Rightarrow> (Event \<Rightarrow> Event) \<Rightarrow> error + database" where
  "updateEvent d i f =
     (if getEvent d i = None then Inl NotFound
      else Inr (d\<lparr>events := map (\<lambda>e. if event_id e = i then f e else e) (events d)\<rparr>))"

subsection \<open>What a handler reads from its environment\<close>

text \<open>
  \<^verbatim>\<open>Date.now()\<close> and \<^verbatim>\<open>new Date().toISOString()\<close> are read twice each by
  \<^verbatim>\<open>onSubmit\<close>, once for the user and once for the booking. The store writes of
  \<^verbatim>\<open>onSubmit\<close> stand in a \<^verbatim>\<open>try\<close> block: whether \<^verbatim>\<open>db.addUser\<close> or
  \<^verbatim>\<open>db.addBooking\<close> throws is an input, as is whether a promise of
  \<^verbatim>\<open>EmailService\<close> rejects. A write that throws writes nothing.
\<close>

record env =
  now_user :: nat
  iso_user :: string
  now_booking :: nat
  iso_booking :: string
  addUser_throws :: bool
  addBooking_throws :: bool
  bookingMail_rejects :: bool
  paymentMail_rejects :: bool

text \<open>\<^verbatim>\<open>Number.prototype.toString\<close> on a natural number: its decimal digits.\<close>

definition digit :: "nat \<Rightarrow> char" where
  "digit n = ''0123456789'' ! n"

function toString :: "nat \<Rightarrow> string" where
  "toString n = (if n < 10 then [digit n] else toString (n div 10) @ [digit (n mod 10)])"
  by pat_completeness auto
termination
  by (relation "measure (\<lambda>n. n)") auto

declare toString.simps [simp del]

subsection \<open>The component's state\<close>

datatype field = F_name | F_email | F_phone | F_studentId

datatype mail =
  BookingConfirmation User Event string
| PaymentConfirmation User Event string

text \<open>
  The four \<^verbatim>\<open>useState\<close> cells, \<^verbatim>\<open>formState.errors\<close> of the form hook, the store,
  the mails handed to \<^verbatim>\<open>EmailService\<close>, what \<^verbatim>\<open>console.error\<close> printed and the
  delays of the \<^verbatim>\<open>onSuccess\<close> callbacks given to \<^verbatim>\<open>setTimeout\<close>.
\<close>

record state =
  db :: database
  isSubmitting :: bool
  showPayment :: bool
  bookingData :: "(User \<times> Booking) option"
  success :: bool
  errors :: "(field \<times> string) list"
  mails :: "mail list"
  console :: "error list"
  timeouts :: "nat list"

subsection \<open>\<^verbatim>\<open>bookingSchema\<close> and \<^verbatim>\<open>handleSubmit\<close>\<close>

text \<open>
  The schema checks every field and reports one issue per failing field. What zod takes
  for an email address is the parameter \<open>isEmail\<close>.
\<close>

definition bookingSchema :: "(string \<Rightarrow> bool) \<Rightarrow> BookingFormData \<Rightarrow> (field \<times> string) list" where
  "bookingSchema isEmail data =
     (if length (data_name data) < 2 then [(F_name, ''Name must be at least 2 characters'')] else []) @
     (if isEmail (data_email data) then [] else [(F_email, ''Invalid email address'')]) @
     (if length (data_phone data) < 10 then [(F_phone, ''Phone number must be at least 10 digits'')] else []) @
     (if length (data_studentId data) < 1 then [(F_studentId, ''Student ID is required'')] else [])"

subsection \<open>The handlers\<close>

definition completeBooking :: "Event \<Rightarrow> env \<Rightarrow> User \<Rightarrow> Booking \<Rightarrow> state \<Rightarrow> outcome \<times> state" where
  "completeBooking event en user booking s =
     (case updateEvent (db s) (event_id event)
             (\<lambda>e. e\<lparr>currentParticipants := currentParticipants event + 1\<rparr>) of
        Inl err \<Rightarrow> (Thrown err, s)
      | Inr d \<Rightarrow>
          if bookingMail_rejects en then (Thrown NotificationFailure, s\<lparr>db := d\<rparr>)
          else (Ok, s\<lparr>db := d,
                      mails := mails s @ [BookingConfirmation user event (booking_id booking)],
                      success := True,
                      timeouts := timeouts s @ [2000]\<rparr>))"

definition new_user :: "env \<Rightarrow> BookingFormData \<Rightarrow> User" where
  "new_user en data =
     \<lparr>user_id = toString (now_user en),
      name = data_name data,
      email = data_email data,
      phone = data_phone data,
      studentId = data_studentId data,
      registrationDate = iso_user en\<rparr>"

definition new_booking :: "Event \<Rightarrow> env \<Rightarrow> User \<Rightarrow> Booking" where
  "new_booking event en user =
     \<lparr>booking_id = toString (now_booking en),
      userId = user_id user,
      eventId = event_id event,
      bookingDate = iso_booking en,
      paymentStatus = (if price event > 0 then pending else completed),
      amount = price event,
      paymentId = None\<rparr>"

text \<open>The body of the \<^verbatim>\<open>try\<close> block of \<^verbatim>\<open>onSubmit\<close>.\<close>

definition onSubmit_try :: "Event \<Rightarrow> env \<Rightarrow> BookingFormData \<Rightarrow> state \<Rightarrow> outcome \<times> state" where
  "onSubmit_try event en data s =
     (let user = new_user en data;
          booking = new_booking event en user;
          existingUser = getUserByEmail (db s) (data_email data)
      in if existingUser = None \<and> addUser_throws en then (Thrown StorageFailure, s)
         else
           let d1 = (if existingUser = None then addUser (db s) user else db s)
           in if addBooking_throws en then (Thrown StorageFailure, s\<lparr>db := d1\<rparr>)
              else
                let s2 = s\<lparr>db := addBooking d1 booking, bookingData := Some (user, booking)\<rparr>
                in if price event > 0 then (Ok, s2\<lparr>showPayment := True\<rparr>)
                   else completeBooking event en user booking s2)"

text \<open>\<^verbatim>\<open>onSubmit\<close>: the \<^verbatim>\<open>catch\<close> prints the error, the \<^verbatim>\<open>finally\<close> clears the flag.\<close>

definition onSubmit :: "Event \<Rightarrow> env \<Rightarrow> BookingFormData \<Rightarrow> state \<Rightarrow> state" where
  "onSubmit event en data s =
     (case onSubmit_try event en data (s\<lparr>isSubmitting := True\<rparr>) of
        (Ok, s') \<Rightarrow> s'\<lparr>isSubmitting := False\<rparr>
      | (Thrown err, s') \<Rightarrow> s'\<lparr>console := console s' @ [err], isSubmitting := False\<rparr>)"

text \<open>
  \<^verbatim>\<open>handleSubmit(onSubmit)\<close> of the form hook with the zod resolver: the handler runs
  only when the schema reports no issue; otherwise the issues become
  \<^verbatim>\<open>formState.errors\<close>.
\<close>

definition handleSubmit :: "(string \<Rightarrow> bool) \<Rightarrow> Event \<Rightarrow> env \<Rightarrow> BookingFormData \<Rightarrow> state \<Rightarrow> state" where
  "handleSubmit isEmail event en data s =
     (case bookingSchema isEmail data of
        [] \<Rightarrow> onSubmit event en data (s\<lparr>errors := []\<rparr>)
      | issue # issues \<Rightarrow> s\<lparr>errors := issue # issues\<rparr>)"

definition handlePaymentSuccess :: "Event \<Rightarrow> env \<Rightarrow> string \<Rightarrow> state \<Rightarrow> outcome \<times> state" where
  "handlePaymentSuccess event en pid s =
     (case bookingData s of
        None \<Rightarrow> (Ok, s)
      | Some (user, booking) \<Rightarrow>
          (case updateBooking (db s) (booking_id booking)
                  (\<lambda>b. b\<lparr>paymentStatus := completed, paymentId := Some pid\<rparr>) of
             Inl err \<Rightarrow> (Thrown err, s)
           | Inr d \<Rightarrow>
               (case completeBooking event en user booking (s\<lparr>db := d\<rparr>) of
                  (Thrown err, s1) \<Rightarrow> (Thrown err, s1)
                | (Ok, s1) \<Rightarrow>
                    if paymentMail_rejects en then (Thrown NotificationFailure, s1)
                    else (Ok, s1\<lparr>mails := mails s1 @ [PaymentConfirmation user event pid]\<rparr>))))"

text \<open>The \<^verbatim>\<open>onCancel\<close> callback of the payment gateway.\<close>

definition onCancel :: "state \<Rightarrow> state" where
  "onCancel s = s\<lparr>showPayment := False\<rparr>"

subsection \<open>Sequences of calls\<close>

text \<open>
  What can happen to one mounted form: the visitor submits, the gateway reports a payment,
  \<^verbatim>\<open>completeBooking\<close> runs, or the gateway is cancelled. \<open>run\<close> performs a list of
  such calls from left to right.
\<close>

datatype action =
  Submit env BookingFormData
| PaymentSuccess env string
| Finalize env User Booking
| Cancel

fun perform :: "Event \<Rightarrow> action \<Rightarrow> state \<Rightarrow> state" where
  "perform event (Submit en data) s = onSubmit event en data s"
| "perform event (PaymentSuccess en pid) s = snd (handlePaymentSuccess event en pid s)"
| "perform event (Finalize en user booking) s = snd (completeBooking event en user booking s)"
| "perform event Cancel s = onCancel s"

fun run :: "Event \<Rightarrow> action list \<Rightarrow> state \<Rightarrow> state" where
  "run event [] s = s"
| "run event (a # as) s = run event as (perform event a s)"

subsection \<open>The payment invariant of a booking\<close>

text \<open>
  \<open>payment_recorded\<close> is the invariant in the words of the specification (section 3): a
  completed booking is free or carries a non-empty payment identifier.
  \<open>reports_identifier\<close> says of a call that, when it is a payment confirmation, the
  gateway reported a non-empty payment identifier.
\<close>

definition payment_recorded :: "Booking \<Rightarrow> bool" where
  "payment_recorded b =
     (paymentStatus b = completed \<longrightarrow>
        amount b = 0 \<or> (case paymentId b of None \<Rightarrow> False | Some p \<Rightarrow> p \<noteq> []))"

fun reports_identifier :: "action \<Rightarrow> bool" where
  "reports_identifier (PaymentSuccess en pid) = (pid \<noteq> [])"
| "reports_identifier (Submit en data) = True"
| "reports_identifier (Finalize en user booking) = True"
| "reports_identifier Cancel = True"

subsection \<open>Concrete inputs\<close>

text \<open>
  The event of the specification's scenario with price \<open>p\<close> and \<open>n\<close> participants, the
  form input of the scenario, an environment whose clock reads \<open>t\<close> and in which nothing
  throws, and a fresh form over a store that holds the given events only.
\<close>

definition demo_event :: "int \<Rightarrow> int \<Rightarrow> Event" where
  "demo_event p n =
     \<lparr>event_id = ''e1'', title = ''Morning Yoga'', date = ''2025-01-10'', time = ''07:00'',
      price = p, maxParticipants = 2, currentParticipants = n\<rparr>"

definition ann :: BookingFormData where
  "ann = \<lparr>data_name = ''Ann Lee'', data_email = ''a@x.com'', data_phone = ''1234567890'',
          data_studentId = ''S1''\<rparr>"

definition clock :: "nat \<Rightarrow> env" where
  "clock t =
     \<lparr>now_user = t, iso_user = ''2025-01-01T00:00:00.000Z'', now_booking = t,
      iso_booking = ''2025-01-01T00:00:00.000Z'', addUser_throws = False,
      addBooking_throws = False, bookingMail_rejects = False, paymentMail_rejects = False\<rparr>"

definition store_with :: "Event list \<Rightarrow> state" where
  "store_with es =
     \<lparr>db = \<lparr>users = [], events = es, bookings = []\<rparr>, isSubmitting = False,
      showPayment = False, bookingData = None, success = False, errors = [], mails = [],
      console = [], timeouts = []\<rparr>"

definition ann_user :: "nat \<Rightarrow> User" where
  "ann_user t = new_user (clock t) ann"

definition ann_booking :: "Event \<Rightarrow> nat \<Rightarrow> Booking" where
  "ann_booking ev t = new_booking ev (clock t) (ann_user t)"

text \<open>An email check for the concrete runs: the address holds an at sign.\<close>

definition contains_at :: "string \<Rightarrow> bool" where
  "contains_at s = (CHR ''@'' \<in> set s)"

section \<open>Properties\<close>

subsection \<open>Auxiliary facts\<close>

lemmas demo_defs = demo_event_def ann_def clock_def store_with_def ann_user_def ann_booking_def

lemmas handler_defs = onSubmit_def onSubmit_try_def completeBooking_def handlePaymentSuccess_def
  onCancel_def new_user_def new_booking_def getUserByEmail_def addUser_def addBooking_def
  updateEvent_def updateBooking_def getEvent_def getBooking_def Let_def

lemma toString_1000: "toString 1000 = ''1000''"
  by (simp add: toString.simps digit_def)

lemma toString_2000: "toString 2000 = ''2000''"
  by (simp add: toString.simps digit_def)

lemma find_None_map_id:
  "find P xs = None \<Longrightarrow> map (\<lambda>x. if P x then f x else x) xs = xs"
  by (induction xs) (auto split: if_splits)

lemma find_Some_map:
  "find P xs = Some x \<Longrightarrow> (\<And>y. P (f y) = P y) \<Longrightarrow>
     find P (map (\<lambda>y. if P y then f y else y) xs) = Some (f x)"
  by (induction xs) (auto split: if_splits)

lemma find_None_map:
  "(\<And>y. P (f y) = P y) \<Longrightarrow>
     (find P (map (\<lambda>y. if P y then f y else y) xs) = None) = (find P xs = None)"
  by (induction xs) (auto split: if_splits)

lemma find_append_last: "P x \<Longrightarrow> find P (xs @ [x]) \<noteq> None"
  by (induction xs) auto

lemma map_overwrite:
  assumes "\<And>e. P (g e) = P e" and "\<And>e. f (g e) = f e"
  shows "map (\<lambda>e. if P e then f e else e) (map (\<lambda>e. if P e then g e else e) xs) =
         map (\<lambda>e. if P e then f e else e) xs"
  using assms by (induction xs) auto

text \<open>What \<^verbatim>\<open>completeBooking\<close> does to the store, whatever it returns.\<close>

lemma completeBooking_events:
  "events (db (snd (completeBooking ev en u b s))) =
     map (\<lambda>e. if event_id e = event_id ev
               then e\<lparr>currentParticipants := currentParticipants ev + 1\<rparr> else e)
       (events (db s))"
  by (simp add: completeBooking_def updateEvent_def getEvent_def find_None_map_id)

lemma completeBooking_bookings:
  "bookings (db (snd (completeBooking ev en u b s))) = bookings (db s)"
  by (simp add: completeBooking_def updateEvent_def)

lemma completeBooking_outcome:
  "fst (completeBooking ev en u b s) \<in> {Ok, Thrown NotFound, Thrown NotificationFailure}"
  by (simp add: completeBooking_def updateEvent_def)

text \<open>What \<^verbatim>\<open>onSubmit\<close> does when no store write throws.\<close>

lemma onSubmit_db:
  assumes "\<not> addBooking_throws en"
    and "getUserByEmail (db s) (data_email data) = None \<longrightarrow> \<not> addUser_throws en"
  shows "bookings (db (onSubmit event en data s)) =
           bookings (db s) @ [new_booking event en (new_user en data)]"
    and "users (db (onSubmit event en data s)) =
           (if getUserByEmail (db s) (data_email data) = None
            then users (db s) @ [new_user en data] else users (db s))"
    and "bookingData (onSubmit event en data s) =
           Some (new_user en data, new_booking event en (new_user en data))"
    and "price event > 0 \<Longrightarrow> events (db (onSubmit event en data s)) = events (db s)"
    and "price event > 0 \<Longrightarrow> showPayment (onSubmit event en data s)"
  using assms
  by (auto simp: onSubmit_def onSubmit_try_def Let_def addUser_def addBooking_def
        completeBooking_def updateEvent_def split: prod.splits outcome.splits)

lemma onSubmit_bookings_cases:
  "bookings (db (onSubmit event en data s)) = bookings (db s) \<or>
   bookings (db (onSubmit event en data s)) =
     bookings (db s) @ [new_booking event en (new_user en data)]"
  by (auto simp: onSubmit_def onSubmit_try_def Let_def addUser_def addBooking_def
        completeBooking_def updateEvent_def split: prod.splits outcome.splits)

text \<open>What \<^verbatim>\<open>handlePaymentSuccess\<close> does to the store, whatever it returns.\<close>

lemma handlePaymentSuccess_bookings:
  "bookings (db (snd (handlePaymentSuccess event en pid s))) =
     (case bookingData s of
        None \<Rightarrow> bookings (db s)
      | Some (user, booking) \<Rightarrow>
          map (\<lambda>b. if booking_id b = booking_id booking
                    then b\<lparr>paymentStatus := completed, paymentId := Some pid\<rparr> else b)
            (bookings (db s)))"
  by (auto simp: handlePaymentSuccess_def updateBooking_def getBooking_def find_None_map_id
        completeBooking_def updateEvent_def
        split: option.splits prod.splits sum.splits outcome.splits)

lemma handlePaymentSuccess_events:
  "events (db (snd (handlePaymentSuccess event en pid s))) =
     (case bookingData s of
        None \<Rightarrow> events (db s)
      | Some (user, booking) \<Rightarrow>
          if getBooking (db s) (booking_id booking) = None then events (db s)
          else map (\<lambda>e. if event_id e = event_id event
                         then e\<lparr>currentParticipants := currentParticipants event + 1\<rparr> else e)
                 (events (db s)))"
  by (auto simp: handlePaymentSuccess_def updateBooking_def getEvent_def find_None_map_id
        completeBooking_def updateEvent_def
        split: option.splits prod.splits sum.splits outcome.splits)

lemma handlePaymentSuccess_bookingData:
  "bookingData (snd (handlePaymentSuccess event en pid s)) = bookingData s"
  by (auto simp: handlePaymentSuccess_def updateBooking_def
        completeBooking_def updateEvent_def
        split: option.splits prod.splits sum.splits outcome.splits)

lemma handlePaymentSuccess_outcome:
  "fst (handlePaymentSuccess event en pid s) \<in> {Ok, Thrown NotFound, Thrown NotificationFailure}"
  by (auto simp: handlePaymentSuccess_def updateBooking_def completeBooking_def updateEvent_def
        split: option.splits prod.splits sum.splits outcome.splits if_splits)

lemma getBooking_after_payment:
  "bookingData s = Some (user, booking) \<Longrightarrow>
   (getBooking (db (snd (handlePaymentSuccess event en pid s))) (booking_id booking) = None) =
   (getBooking (db s) (booking_id booking) = None)"
  by (simp add: getBooking_def handlePaymentSuccess_bookings find_None_map)

text \<open>
  For an event whose price is not negative, every call that reports a non-empty payment
  identifier keeps \<open>payment_recorded\<close> on the bookings of the store.
\<close>

lemma new_booking_recorded:
  "0 \<le> price event \<Longrightarrow> payment_recorded (new_booking event en user)"
  by (simp add: payment_recorded_def new_booking_def)

lemma perform_recorded:
  assumes "0 \<le> price event" and "reports_identifier a"
    and "list_all payment_recorded (bookings (db s))"
  shows "list_all payment_recorded (bookings (db (perform event a s)))"
proof (cases a)
  case (Submit en data)
  then show ?thesis
    using assms onSubmit_bookings_cases [of event en data s]
    by (auto simp: new_booking_recorded)
next
  case (PaymentSuccess en pid)
  then show ?thesis
    using assms
    by (auto simp: handlePaymentSuccess_bookings list_all_iff payment_recorded_def
          split: option.splits)
next
  case (Finalize en user booking)
  then show ?thesis using assms by (simp add: completeBooking_bookings)
next
  case Cancel
  then show ?thesis using assms by (simp add: onCancel_def)
qed

subsection \<open>Two submissions with one email address\<close>

text \<open>
  Claim C1. Two submissions with the same email address leave one User record in the
  store, and both bookings are to reference that record by its identifier. The handler
  builds the booking from the candidate user before it looks the email up: on the store
  with no user, Ann's submission at clock 1000 followed by the same submission at clock
  2000 leaves the one user \<open>''1000''\<close>, and the second booking carries the user
  identifier \<open>''2000''\<close>, which no User record has.
\<close>

theorem same_email_second_booking_dangling:
  "users (db (onSubmit (demo_event 500 1) (clock 2000) ann
             (onSubmit (demo_event 500 1) (clock 1000) ann (store_with [demo_event 500 1])))) =
     [ann_user 1000] \<and>
   map userId (bookings (db (onSubmit (demo_event 500 1) (clock 2000) ann
             (onSubmit (demo_event 500 1) (clock 1000) ann (store_with [demo_event 500 1]))))) =
     [''1000'', ''2000''] \<and>
   user_id (ann_user 1000) = ''1000''"
  by (simp add: demo_defs handler_defs toString_1000 toString_2000)

subsection \<open>The payment invariant\<close>

text \<open>
  Claim C2. For an event whose price is not negative and a gateway that reports non-empty
  payment identifiers: from a store whose bookings all satisfy the invariant, every
  sequence of submissions, payment confirmations, finalizations and cancellations leads
  to a store in which every completed booking has amount 0 or carries a non-empty payment
  identifier.
\<close>

theorem run_payment_recorded:
  assumes "0 \<le> price event"
    and "list_all reports_identifier acts"
    and "list_all payment_recorded (bookings (db s))"
  shows "list_all payment_recorded (bookings (db (run event acts s)))"
  using assms
proof (induction acts arbitrary: s)
  case Nil
  then show ?case by simp
next
  case (Cons a acts)
  from Cons.prems have "list_all payment_recorded (bookings (db (perform event a s)))"
    by (simp add: perform_recorded)
  with Cons.prems Cons.IH [of "perform event a s"] show ?case by simp
qed

theorem run_payment_recorded_witness:
  "0 \<le> price (demo_event 500 1) \<and>
   list_all reports_identifier
      [Submit (clock 1000) ann, Cancel, PaymentSuccess (clock 1001) ''pay_123''] \<and>
   list_all payment_recorded (bookings (db (store_with [demo_event 500 1]))) \<and>
   list_all payment_recorded (bookings (db (run (demo_event 500 1)
      [Submit (clock 1000) ann, Cancel, PaymentSuccess (clock 1001) ''pay_123'']
      (store_with [demo_event 500 1])))) \<and>
   map paymentStatus (bookings (db (run (demo_event 500 1)
      [Submit (clock 1000) ann, Cancel, PaymentSuccess (clock 1001) ''pay_123'']
      (store_with [demo_event 500 1])))) = [completed] \<and>
   map paymentId (bookings (db (run (demo_event 500 1)
      [Submit (clock 1000) ann, Cancel, PaymentSuccess (clock 1001) ''pay_123'']
      (store_with [demo_event 500 1])))) = [Some ''pay_123'']"
proof -
  have price: "0 \<le> price (demo_event 500 1)"
    by (simp add: demo_event_def)
  have ids: "list_all reports_identifier
      [Submit (clock 1000) ann, Cancel, PaymentSuccess (clock 1001) ''pay_123'']"
    by simp
  have init: "list_all payment_recorded (bookings (db (store_with [demo_event 500 1])))"
    by (simp add: store_with_def)
  have status: "map paymentStatus (bookings (db (run (demo_event 500 1)
      [Submit (clock 1000) ann, Cancel, PaymentSuccess (clock 1001) ''pay_123'']
      (store_with [demo_event 500 1])))) = [completed]"
    by (simp add: demo_defs handler_defs)
  have paid: "map paymentId (bookings (db (run (demo_event 500 1)
      [Submit (clock 1000) ann, Cancel, PaymentSuccess (clock 1001) ''pay_123'']
      (store_with [demo_event 500 1])))) = [Some ''pay_123'']"
    by (simp add: demo_defs handler_defs)
  from price ids init status paid run_payment_recorded [OF price ids init]
  show ?thesis by blast
qed

subsection \<open>The paid path\<close>

text \<open>
  Claim C3, as amended. For an event with a price above zero and a submission whose store
  writes do not throw: the booking is appended pending and without payment identifier,
  and the events are untouched; cancelling the gateway leaves the store as it is; after
  the gateway reports a payment \<open>pid\<close>, the booking is in the store completed with
  \<open>pid\<close>, as is every booking of its identifier, and every stored event with the
  identifier of the form's event has the count of the form's snapshot plus one. That is
  one participant more than the store held exactly when the store held the count of the
  snapshot.
\<close>

theorem paid_submission_flow:
  assumes paid: "price event > 0"
    and writes: "\<not> addBooking_throws en"
      "getUserByEmail (db s) (data_email data) = None \<longrightarrow> \<not> addUser_throws en"
  shows "bookings (db (onSubmit event en data s)) =
           bookings (db s) @ [new_booking event en (new_user en data)] \<and>
         paymentStatus (new_booking event en (new_user en data)) = pending \<and>
         paymentId (new_booking event en (new_user en data)) = None \<and>
         events (db (onSubmit event en data s)) = events (db s) \<and>
         db (onCancel (onSubmit event en data s)) = db (onSubmit event en data s) \<and>
         (new_booking event en (new_user en data))\<lparr>paymentStatus := completed, paymentId := Some pid\<rparr>
           \<in> set (bookings (db (snd (handlePaymentSuccess event en' pid (onSubmit event en data s))))) \<and>
         (\<forall>b \<in> set (bookings (db (snd (handlePaymentSuccess event en' pid (onSubmit event en data s))))).
            booking_id b = booking_id (new_booking event en (new_user en data)) \<longrightarrow>
            paymentStatus b = completed \<and> paymentId b = Some pid) \<and>
         events (db (snd (handlePaymentSuccess event en' pid (onSubmit event en data s)))) =
           map (\<lambda>x. if event_id x = event_id event
                     then x\<lparr>currentParticipants := currentParticipants event + 1\<rparr> else x)
             (events (db s)) \<and>
         (getEvent (db s) (event_id event) = Some e \<longrightarrow>
            getEvent (db (snd (handlePaymentSuccess event en' pid (onSubmit event en data s))))
                (event_id event) =
              Some (e\<lparr>currentParticipants := currentParticipants event + 1\<rparr>) \<and>
            (currentParticipants e = currentParticipants event \<longrightarrow>
               getEvent (db (snd (handlePaymentSuccess event en' pid (onSubmit event en data s))))
                   (event_id event) =
                 Some (e\<lparr>currentParticipants := currentParticipants e + 1\<rparr>)))"
proof -
  let ?b = "new_booking event en (new_user en data)"
  let ?s1 = "onSubmit event en data s"
  let ?s2 = "snd (handlePaymentSuccess event en' pid ?s1)"
  note sub = onSubmit_db [OF writes, of event]
  have b1: "bookings (db ?s1) = bookings (db s) @ [?b]" by (rule sub(1))
  have bd: "bookingData ?s1 = Some (new_user en data, ?b)" by (rule sub(3))
  have ev1: "events (db ?s1) = events (db s)" using paid by (rule sub(4))
  have pend: "paymentStatus ?b = pending" "paymentId ?b = None"
    using paid by (simp_all add: new_booking_def)
  have canc: "db (onCancel ?s1) = db ?s1" by (simp add: onCancel_def)
  have found: "getBooking (db ?s1) (booking_id ?b) \<noteq> None"
    unfolding getBooking_def b1 by (rule find_append_last) simp
  have b2: "bookings (db ?s2) =
      map (\<lambda>b. if booking_id b = booking_id ?b
                then b\<lparr>paymentStatus := completed, paymentId := Some pid\<rparr> else b)
        (bookings (db s) @ [?b])"
    by (simp add: handlePaymentSuccess_bookings bd b1)
  have mem: "?b\<lparr>paymentStatus := completed, paymentId := Some pid\<rparr> \<in> set (bookings (db ?s2))"
    unfolding b2 by simp
  have all: "\<forall>b \<in> set (bookings (db ?s2)). booking_id b = booking_id ?b \<longrightarrow>
      paymentStatus b = completed \<and> paymentId b = Some pid"
    unfolding b2 by auto
  have ev2: "events (db ?s2) =
      map (\<lambda>x. if event_id x = event_id event
                then x\<lparr>currentParticipants := currentParticipants event + 1\<rparr> else x)
        (events (db s))"
    using found by (auto simp: handlePaymentSuccess_events bd ev1)
  have cnt: "getEvent (db ?s2) (event_id event) =
      Some (e\<lparr>currentParticipants := currentParticipants event + 1\<rparr>)"
    if "getEvent (db s) (event_id event) = Some e"
  proof -
    from that have "find (\<lambda>x. event_id x = event_id event) (events (db s)) = Some e"
      by (simp add: getEvent_def)
    then show ?thesis
      unfolding getEvent_def ev2 by (rule find_Some_map) simp
  qed
  have sync: "getEvent (db ?s2) (event_id event) =
      Some (e\<lparr>currentParticipants := currentParticipants e + 1\<rparr>)"
    if "getEvent (db s) (event_id event) = Some e"
      "currentParticipants e = currentParticipants event"
    using cnt [OF that(1)] that(2) by simp
  from b1 pend ev1 canc mem all ev2 cnt sync show ?thesis by blast
qed

theorem paid_submission_flow_witness:
  "price (demo_event 500 1) > 0 \<and>
   getEvent (db (store_with [demo_event 500 1])) ''e1'' = Some (demo_event 500 1) \<and>
   db (onSubmit (demo_event 500 1) (clock 1000) ann (store_with [demo_event 500 1])) =
     \<lparr>users = [ann_user 1000], events = [demo_event 500 1],
      bookings = [ann_booking (demo_event 500 1) 1000]\<rparr> \<and>
   paymentStatus (ann_booking (demo_event 500 1) 1000) = pending \<and>
   db (snd (handlePaymentSuccess (demo_event 500 1) (clock 1001) ''pay_123''
         (onSubmit (demo_event 500 1) (clock 1000) ann (store_with [demo_event 500 1])))) =
     \<lparr>users = [ann_user 1000], events = [demo_event 500 2],
      bookings = [(ann_booking (demo_event 500 1) 1000)
                    \<lparr>paymentStatus := completed, paymentId := Some ''pay_123''\<rparr>]\<rparr>"
  using paid_submission_flow [of "demo_event 500 1" "clock 1000" "store_with [demo_event 500 1]"
          ann "''pay_123''" "clock 1001" "demo_event 500 1"]
  by (simp add: demo_defs handler_defs)

text \<open>
  The store holds the event with 7 participants while the form's snapshot has 1: after
  Ann's paid submission and the gateway's report, the store holds 2 participants, which is
  not one more than 7.
\<close>

theorem stale_snapshot_counterexample:
  "price (demo_event 500 1) > 0 \<and>
   getEvent (db (store_with [demo_event 500 7])) ''e1'' = Some (demo_event 500 7) \<and>
   fst (handlePaymentSuccess (demo_event 500 1) (clock 1001) ''pay_123''
         (onSubmit (demo_event 500 1) (clock 1000) ann (store_with [demo_event 500 7]))) = Ok \<and>
   getEvent (db (snd (handlePaymentSuccess (demo_event 500 1) (clock 1001) ''pay_123''
         (onSubmit (demo_event 500 1) (clock 1000) ann (store_with [demo_event 500 7])))))
       ''e1'' = Some (demo_event 500 2) \<and>
   currentParticipants (demo_event 500 2) \<noteq> currentParticipants (demo_event 500 7) + 1"
  by (simp add: demo_defs handler_defs)

subsection \<open>Finalizing twice\<close>

text \<open>
  Claim C4. A second call of \<^verbatim>\<open>completeBooking\<close> from the same form, whatever the first
  and the second return, leaves the events of the store, and so the participant count, as
  the first call left them: each call writes the count of the form's snapshot plus one.
\<close>

theorem completeBooking_twice:
  "events (db (snd (completeBooking event en2 user booking
                      (snd (completeBooking event en1 user booking s))))) =
   events (db (snd (completeBooking event en1 user booking s)))"
  by (simp add: completeBooking_events)

theorem completeBooking_twice_witness:
  "events (db (snd (completeBooking (demo_event 0 1) (clock 2) (ann_user 1)
                      (ann_booking (demo_event 0 1) 1)
                      (snd (completeBooking (demo_event 0 1) (clock 1) (ann_user 1)
                              (ann_booking (demo_event 0 1) 1)
                              (store_with [demo_event 0 1])))))) =
     [demo_event 0 2] \<and>
   events (db (snd (completeBooking (demo_event 0 1) (clock 1) (ann_user 1)
                      (ann_booking (demo_event 0 1) 1) (store_with [demo_event 0 1])))) =
     [demo_event 0 2]"
  using completeBooking_twice [of "demo_event 0 1" "clock 2" "ann_user 1"
          "ann_booking (demo_event 0 1) 1" "clock 1" "store_with [demo_event 0 1]"]
  by (simp add: completeBooking_events demo_event_def store_with_def)

subsection \<open>Confirming a payment again\<close>

text \<open>
  Claim C5, as amended. \<^verbatim>\<open>handlePaymentSuccess\<close> never fails with \<open>InvalidState\<close>.
  Called on a booking that is already completed, with the booking and the event in the
  store and both mails sent, it returns normally and stores the new payment identifier. A
  second confirmation leaves the events of the store, and so the participant count, as the
  first left them. When the booking of the form is not in the store, the call fails with
  \<open>NotFound\<close> and changes nothing.
\<close>

theorem repeated_payment_confirmation:
  "fst (handlePaymentSuccess event en pid s) \<noteq> Thrown InvalidState \<and>
   events (db (snd (handlePaymentSuccess event en2 pid2
                     (snd (handlePaymentSuccess event en1 pid1 s))))) =
     events (db (snd (handlePaymentSuccess event en1 pid1 s))) \<and>
   (bookingData s = Some (user, booking) \<and> getBooking (db s) (booking_id booking) = Some b \<and>
    paymentStatus b = completed \<and> getEvent (db s) (event_id event) \<noteq> None \<and>
    \<not> bookingMail_rejects en \<and> \<not> paymentMail_rejects en \<longrightarrow>
      fst (handlePaymentSuccess event en pid s) = Ok \<and>
      getBooking (db (snd (handlePaymentSuccess event en pid s))) (booking_id booking) =
        Some (b\<lparr>paymentStatus := completed, paymentId := Some pid\<rparr>)) \<and>
   (bookingData s = Some (user, booking) \<and> getBooking (db s) (booking_id booking) = None \<longrightarrow>
      handlePaymentSuccess event en pid s = (Thrown NotFound, s))"
proof -
  have inv: "fst (handlePaymentSuccess event en pid s) \<noteq> Thrown InvalidState"
    using handlePaymentSuccess_outcome [of event en pid s] by auto
  have twice: "events (db (snd (handlePaymentSuccess event en2 pid2
                     (snd (handlePaymentSuccess event en1 pid1 s))))) =
     events (db (snd (handlePaymentSuccess event en1 pid1 s)))"
  proof (cases "bookingData s")
    case None
    then show ?thesis
      by (simp add: handlePaymentSuccess_events handlePaymentSuccess_bookingData)
  next
    case (Some ub)
    obtain u b' where ub: "ub = (u, b')" by (cases ub)
    show ?thesis
      using getBooking_after_payment [of s u b' event en1 pid1] Some ub
      by (simp add: handlePaymentSuccess_events [of event en2] handlePaymentSuccess_bookingData
            handlePaymentSuccess_events [of event en1 pid1 s])
  qed
  have again: "fst (handlePaymentSuccess event en pid s) = Ok \<and>
      getBooking (db (snd (handlePaymentSuccess event en pid s))) (booking_id booking) =
        Some (b\<lparr>paymentStatus := completed, paymentId := Some pid\<rparr>)"
    if "bookingData s = Some (user, booking)" "getBooking (db s) (booking_id booking) = Some b"
      "getEvent (db s) (event_id event) \<noteq> None"
      "\<not> bookingMail_rejects en" "\<not> paymentMail_rejects en"
  proof -
    have "fst (handlePaymentSuccess event en pid s) = Ok"
      using that
      by (auto simp: handlePaymentSuccess_def updateBooking_def completeBooking_def
            updateEvent_def getEvent_def)
    moreover have "getBooking (db (snd (handlePaymentSuccess event en pid s))) (booking_id booking) =
        Some (b\<lparr>paymentStatus := completed, paymentId := Some pid\<rparr>)"
      unfolding getBooking_def handlePaymentSuccess_bookings that(1)
      using that(2) by (simp add: getBooking_def find_Some_map)
    ultimately show ?thesis by simp
  qed
  have missing: "handlePaymentSuccess event en pid s = (Thrown NotFound, s)"
    if "bookingData s = Some (user, booking)" "getBooking (db s) (booking_id booking) = None"
    using that by (simp add: handlePaymentSuccess_def updateBooking_def)
  from inv twice again missing show ?thesis by blast
qed

theorem repeated_payment_confirmation_witness:
  "getBooking (db (snd (handlePaymentSuccess (demo_event 500 1) (clock 1001) ''pay_123''
         (onSubmit (demo_event 500 1) (clock 1000) ann (store_with [demo_event 500 1])))))
       ''1000'' =
     Some ((ann_booking (demo_event 500 1) 1000)
            \<lparr>paymentStatus := completed, paymentId := Some ''pay_123''\<rparr>) \<and>
   handlePaymentSuccess (demo_event 500 1) (clock 1002) ''pay_456''
      ((store_with [demo_event 500 1])
         \<lparr>bookingData := Some (ann_user 1000, ann_booking (demo_event 500 1) 1000)\<rparr>) =
     (Thrown NotFound, (store_with [demo_event 500 1])
         \<lparr>bookingData := Some (ann_user 1000, ann_booking (demo_event 500 1) 1000)\<rparr>) \<and>
   events (db (snd (handlePaymentSuccess (demo_event 500 1) (clock 1002) ''pay_456''
      (snd (handlePaymentSuccess (demo_event 500 1) (clock 1001) ''pay_123''
         (onSubmit (demo_event 500 1) (clock 1000) ann (store_with [demo_event 500 1]))))))) =
     [demo_event 500 2]"
  using repeated_payment_confirmation [of "demo_event 500 1" "clock 1002" "''pay_456''"
      "(store_with [demo_event 500 1])
         \<lparr>bookingData := Some (ann_user 1000, ann_booking (demo_event 500 1) 1000)\<rparr>"
      "clock 1002" "''pay_456''" "clock 1001" "''pay_123''"
      "ann_user 1000" "ann_booking (demo_event 500 1) 1000"]
  by (simp add: demo_defs handler_defs toString_1000)

text \<open>
  After Ann's booking is paid with \<open>''pay_123''\<close> it is completed; a second confirmation
  with \<open>''pay_456''\<close> returns normally and replaces the stored identifier.
\<close>

theorem second_confirmation_counterexample:
  "map paymentStatus (bookings (db (snd (handlePaymentSuccess (demo_event 500 1) (clock 1001) ''pay_123''
         (onSubmit (demo_event 500 1) (clock 1000) ann (store_with [demo_event 500 1])))))) =
     [completed] \<and>
   fst (handlePaymentSuccess (demo_event 500 1) (clock 1002) ''pay_456''
      (snd (handlePaymentSuccess (demo_event 500 1) (clock 1001) ''pay_123''
         (onSubmit (demo_event 500 1) (clock 1000) ann (store_with [demo_event 500 1]))))) = Ok \<and>
   map paymentId (bookings (db (snd (handlePaymentSuccess (demo_event 500 1) (clock 1002) ''pay_456''
      (snd (handlePaymentSuccess (demo_event 500 1) (clock 1001) ''pay_123''
         (onSubmit (demo_event 500 1) (clock 1000) ann (store_with [demo_event 500 1])))))))) =
     [Some ''pay_456'']"
  by (simp add: demo_defs handler_defs)

subsection \<open>The status of a new booking\<close>

text \<open>
  Claim C6. For an event whose price is not negative, the booking that the submission
  builds is pending exactly when the price is above zero and completed exactly when the
  price is zero, and its amount is the price. The submission changes the bookings of the
  store by appending this booking or not at all, and it appends it, and hands it to the
  payment step, whenever no store write throws.
\<close>

theorem onSubmit_booking_status:
  assumes "0 \<le> price event"
  shows "(paymentStatus (new_booking event en (new_user en data)) = pending \<longleftrightarrow> price event > 0) \<and>
         (paymentStatus (new_booking event en (new_user en data)) = completed \<longleftrightarrow> price event = 0) \<and>
         amount (new_booking event en (new_user en data)) = price event \<and>
         (bookings (db (onSubmit event en data s)) = bookings (db s) \<or>
          bookings (db (onSubmit event en data s)) =
            bookings (db s) @ [new_booking event en (new_user en data)]) \<and>
         (\<not> addBooking_throws en \<and>
          (getUserByEmail (db s) (data_email data) = None \<longrightarrow> \<not> addUser_throws en) \<longrightarrow>
            bookings (db (onSubmit event en data s)) =
              bookings (db s) @ [new_booking event en (new_user en data)] \<and>
            bookingData (onSubmit event en data s) =
              Some (new_user en data, new_booking event en (new_user en data)))"
proof -
  have status: "paymentStatus (new_booking event en (new_user en data)) = pending \<longleftrightarrow> price event > 0"
    "paymentStatus (new_booking event en (new_user en data)) = completed \<longleftrightarrow> price event = 0"
    "amount (new_booking event en (new_user en data)) = price event"
    using assms by (auto simp: new_booking_def)
  have created: "\<not> addBooking_throws en \<and>
      (getUserByEmail (db s) (data_email data) = None \<longrightarrow> \<not> addUser_throws en) \<longrightarrow>
        bookings (db (onSubmit event en data s)) =
          bookings (db s) @ [new_booking event en (new_user en data)] \<and>
        bookingData (onSubmit event en data s) =
          Some (new_user en data, new_booking event en (new_user en data))"
  proof (intro impI, elim conjE)
    assume w: "\<not> addBooking_throws en"
      "getUserByEmail (db s) (data_email data) = None \<longrightarrow> \<not> addUser_throws en"
    from onSubmit_db(1,3) [OF w, of event]
    show "bookings (db (onSubmit event en data s)) =
          bookings (db s) @ [new_booking event en (new_user en data)] \<and>
        bookingData (onSubmit event en data s) =
          Some (new_user en data, new_booking event en (new_user en data))"
      by simp
  qed
  from status created onSubmit_bookings_cases [of event en data s] show ?thesis
    by (intro conjI) assumption+
qed

theorem onSubmit_booking_status_witness:
  "0 \<le> price (demo_event 500 1) \<and> 0 \<le> price (demo_event 0 1) \<and>
   bookings (db (onSubmit (demo_event 500 1) (clock 1000) ann (store_with [demo_event 500 1]))) =
     [ann_booking (demo_event 500 1) 1000] \<and>
   paymentStatus (ann_booking (demo_event 500 1) 1000) = pending \<and>
   amount (ann_booking (demo_event 500 1) 1000) = 500 \<and>
   bookings (db (onSubmit (demo_event 0 1) (clock 1000) ann (store_with [demo_event 0 1]))) =
     [ann_booking (demo_event 0 1) 1000] \<and>
   paymentStatus (ann_booking (demo_event 0 1) 1000) = completed \<and>
   amount (ann_booking (demo_event 0 1) 1000) = 0"
  using onSubmit_booking_status [of "demo_event 500 1" "clock 1000" ann "store_with [demo_event 500 1]"]
    onSubmit_booking_status [of "demo_event 0 1" "clock 1000" ann "store_with [demo_event 0 1]"]
  by (simp add: demo_defs handler_defs)

subsection \<open>No capacity ceiling\<close>

text \<open>
  Claim C7. \<^verbatim>\<open>completeBooking\<close> never fails with \<open>CapacityExceeded\<close>, and when the store
  holds the event it stores the count of the snapshot plus one, whatever the event's
  \<^verbatim>\<open>maxParticipants\<close> is: a full event gets one participant more.
\<close>

theorem completeBooking_no_ceiling:
  "fst (completeBooking event en user booking s) \<noteq> Thrown CapacityExceeded \<and>
   (getEvent (db s) (event_id event) = Some e \<longrightarrow>
      getEvent (db (snd (completeBooking event en user booking s))) (event_id event) =
        Some (e\<lparr>currentParticipants := currentParticipants event + 1\<rparr>))"
proof -
  have "fst (completeBooking event en user booking s) \<noteq> Thrown CapacityExceeded"
    using completeBooking_outcome [of event en user booking s] by auto
  moreover have "getEvent (db (snd (completeBooking event en user booking s))) (event_id event) =
        Some (e\<lparr>currentParticipants := currentParticipants event + 1\<rparr>)"
    if "getEvent (db s) (event_id event) = Some e"
    using that unfolding getEvent_def completeBooking_events
    by (rule find_Some_map) simp
  ultimately show ?thesis by blast
qed

theorem completeBooking_no_ceiling_witness:
  "getEvent (db (store_with [demo_event 500 2])) ''e1'' = Some (demo_event 500 2) \<and>
   maxParticipants (demo_event 500 2) = 2 \<and>
   currentParticipants (demo_event 500 2) = 2 \<and>
   fst (completeBooking (demo_event 500 2) (clock 1) (ann_user 1)
          (ann_booking (demo_event 500 2) 1) (store_with [demo_event 500 2]))
     \<noteq> Thrown CapacityExceeded \<and>
   getEvent (db (snd (completeBooking (demo_event 500 2) (clock 1) (ann_user 1)
                        (ann_booking (demo_event 500 2) 1) (store_with [demo_event 500 2])))) ''e1'' =
     Some (demo_event 500 3)"
  using completeBooking_no_ceiling [of "demo_event 500 2" "clock 1" "ann_user 1"
          "ann_booking (demo_event 500 2) 1" "store_with [demo_event 500 2]" "demo_event 500 2"]
  by (simp add: getEvent_def store_with_def demo_event_def)

subsection \<open>Rejected input\<close>

text \<open>
  Claim C8. When the name has fewer than 2 characters, the email is not accepted by the
  email check, the phone has fewer than 10 characters or the student ID is empty,
  \<^verbatim>\<open>handleSubmit\<close> does not run the handler: the state is the old one with the issues
  of the schema as its errors, so the store has no new record, and the issues name
  exactly the offending fields.
\<close>

theorem handleSubmit_rejects:
  assumes "length (data_name data) < 2 \<or> \<not> isEmail (data_email data) \<or>
           length (data_phone data) < 10 \<or> data_studentId data = []"
  shows "handleSubmit isEmail event en data s = s\<lparr>errors := bookingSchema isEmail data\<rparr> \<and>
         db (handleSubmit isEmail event en data s) = db s \<and>
         bookingSchema isEmail data \<noteq> [] \<and>
         (F_name \<in> fst ` set (bookingSchema isEmail data) \<longleftrightarrow> length (data_name data) < 2) \<and>
         (F_email \<in> fst ` set (bookingSchema isEmail data) \<longleftrightarrow> \<not> isEmail (data_email data)) \<and>
         (F_phone \<in> fst ` set (bookingSchema isEmail data) \<longleftrightarrow> length (data_phone data) < 10) \<and>
         (F_studentId \<in> fst ` set (bookingSchema isEmail data) \<longleftrightarrow> data_studentId data = [])"
proof -
  have ne: "bookingSchema isEmail data \<noteq> []"
    using assms by (auto simp: bookingSchema_def)
  then have "handleSubmit isEmail event en data s = s\<lparr>errors := bookingSchema isEmail data\<rparr>"
    by (cases "bookingSchema isEmail data") (simp_all add: handleSubmit_def)
  moreover have "F_name \<in> fst ` set (bookingSchema isEmail data) \<longleftrightarrow> length (data_name data) < 2"
    by (auto simp: bookingSchema_def)
  moreover have "F_email \<in> fst ` set (bookingSchema isEmail data) \<longleftrightarrow> \<not> isEmail (data_email data)"
    by (auto simp: bookingSchema_def)
  moreover have "F_phone \<in> fst ` set (bookingSchema isEmail data) \<longleftrightarrow> length (data_phone data) < 10"
    by (auto simp: bookingSchema_def)
  moreover have "F_studentId \<in> fst ` set (bookingSchema isEmail data) \<longleftrightarrow> data_studentId data = []"
    by (auto simp: bookingSchema_def)
  ultimately show ?thesis using ne by simp
qed

theorem handleSubmit_rejects_witness:
  "\<not> contains_at ''not-an-email'' \<and>
   handleSubmit contains_at (demo_event 500 1) (clock 1000) (ann\<lparr>data_email := ''not-an-email''\<rparr>)
       (store_with [demo_event 500 1]) =
     (store_with [demo_event 500 1])\<lparr>errors := [(F_email, ''Invalid email address'')]\<rparr>"
  using handleSubmit_rejects [of "ann\<lparr>data_email := ''not-an-email''\<rparr>" contains_at
          "demo_event 500 1" "clock 1000" "store_with [demo_event 500 1]"]
  by (simp add: contains_at_def ann_def bookingSchema_def)

subsection \<open>A store write that throws\<close>

text \<open>
  Claim C9, as amended. When \<^verbatim>\<open>db.addUser\<close> or \<^verbatim>\<open>db.addBooking\<close> throws, the handler
  prints the error, creates no booking and leaves the events and the booking data of the
  form alone, and it rolls nothing back: when the email was new and \<^verbatim>\<open>db.addUser\<close> had
  succeeded, the new User record stays in the store; otherwise the users are unchanged.
\<close>

theorem onSubmit_no_rollback:
  assumes "(getUserByEmail (db s) (data_email data) = None \<and> addUser_throws en) \<or>
           addBooking_throws en"
  shows "bookings (db (onSubmit event en data s)) = bookings (db s) \<and>
         events (db (onSubmit event en data s)) = events (db s) \<and>
         bookingData (onSubmit event en data s) = bookingData s \<and>
         console (onSubmit event en data s) = console s @ [StorageFailure] \<and>
         users (db (onSubmit event en data s)) =
           (if getUserByEmail (db s) (data_email data) = None \<and> \<not> addUser_throws en
            then users (db s) @ [new_user en data] else users (db s))"
  using assms
  by (auto simp: onSubmit_def onSubmit_try_def Let_def addUser_def getUserByEmail_def)

theorem onSubmit_no_rollback_witness:
  "addBooking_throws ((clock 1000)\<lparr>addBooking_throws := True\<rparr>) \<and>
   db (onSubmit (demo_event 500 1) ((clock 1000)\<lparr>addBooking_throws := True\<rparr>) ann
        (store_with [demo_event 500 1])) =
     \<lparr>users = [ann_user 1000], events = [demo_event 500 1], bookings = []\<rparr>"
  using onSubmit_no_rollback [of "store_with [demo_event 500 1]" ann
          "(clock 1000)\<lparr>addBooking_throws := True\<rparr>" "demo_event 500 1"]
  by (simp add: demo_defs handler_defs)

text \<open>
  On the store with no user, Ann's submission in which \<^verbatim>\<open>db.addBooking\<close> throws leaves
  her User record and no booking.
\<close>

theorem partial_records_counterexample:
  "users (db (onSubmit (demo_event 500 1) ((clock 1000)\<lparr>addBooking_throws := True\<rparr>) ann
        (store_with [demo_event 500 1]))) = [ann_user 1000] \<and>
   bookings (db (onSubmit (demo_event 500 1) ((clock 1000)\<lparr>addBooking_throws := True\<rparr>) ann
        (store_with [demo_event 500 1]))) = [] \<and>
   console (onSubmit (demo_event 500 1) ((clock 1000)\<lparr>addBooking_throws := True\<rparr>) ann
        (store_with [demo_event 500 1])) = [StorageFailure]"
  by (simp add: demo_defs handler_defs)

subsection \<open>The count comes from the snapshot\<close>

text \<open>
  Claim C10. After \<^verbatim>\<open>completeBooking\<close>, every stored event with the identifier of the
  form's event has the count of the snapshot plus one; and the events of the store are the
  same whatever count \<open>n\<close> the store held for that event before the call.
\<close>

theorem completeBooking_from_snapshot:
  "(\<forall>e \<in> set (events (db (snd (completeBooking event en user booking s)))).
      event_id e = event_id event \<longrightarrow> currentParticipants e = currentParticipants event + 1) \<and>
   events (db (snd (completeBooking event en user booking
      (s\<lparr>db := (db s)\<lparr>events :=
           map (\<lambda>e. if event_id e = event_id event then e\<lparr>currentParticipants := n\<rparr> else e)
             (events (db s))\<rparr>\<rparr>)))) =
   events (db (snd (completeBooking event en user booking s)))"
  by (auto simp: completeBooking_events map_overwrite)

theorem completeBooking_from_snapshot_witness:
  "currentParticipants (demo_event 500 1) = 1 \<and>
   events (db (store_with [demo_event 500 7])) = [demo_event 500 7] \<and>
   events (db (snd (completeBooking (demo_event 500 1) (clock 1) (ann_user 1)
      (ann_booking (demo_event 500 1) 1) (store_with [demo_event 500 7])))) = [demo_event 500 2]"
  using completeBooking_from_snapshot [of "demo_event 500 1" "clock 1" "ann_user 1"
     "ann_booking (demo_event 500 1) 1" "store_with [demo_event 500 7]" 7]
  by (simp add: completeBooking_events demo_event_def store_with_def)

end
